theory Spec2Isabelle
  imports Main "HOL-Library.AList"
begin

section \<open>Runtime values\<close>

text \<open>
  The decoders of \<^verbatim>\<open>src/index.ts\<close> take an input of type \<^verbatim>\<open>any\<close>. The values modelled
  here are the ones the type tests of the source tell apart: null, undefined, booleans,
  numbers, strings, dates, functions, arrays and plain objects.

  A number is NaN, one of the two infinities, or an integer that a double holds exactly
  and prints in plain decimal. A string is a list of 8-bit characters. An array is dense.
  A plain object is one that an object literal or \<^verbatim>\<open>JSON.parse\<close> makes: its own properties
  are enumerable, and they are listed in the order \<^verbatim>\<open>Object.keys\<close> reports them. A function
  is given by its own properties, enumerable or not: its \<^verbatim>\<open>length\<close> (the number of its
  parameters), its \<^verbatim>\<open>name\<close>, and the list of the further ones, which is empty for an arrow
  function, a method and a built-in function. A constructor function as the language
  creates it is not among the values, since its \<^verbatim>\<open>prototype\<close> refers back to the function.
  The properties of the standard prototypes are not part of a value, and property names
  are ordinary names (the accessor \<^verbatim>\<open>__proto__\<close> is left out).
\<close>

datatype jsnum = NaN | PosInfinity | NegInfinity | Fin int

datatype jsval =
    JNull
  | JUndefined
  | JBool bool
  | JNum jsnum
  | JStr string
  | JDate int
  | JFunction nat string "(string \<times> jsval) list"
  | JArr "jsval list"
  | JObj "(string \<times> jsval) list"

subsection \<open>String conversion of numbers, joining\<close>

function show_nat :: "nat \<Rightarrow> string" where
  "show_nat n =
     (if n < 10 then [''0123456789'' ! n]
      else show_nat (n div 10) @ [''0123456789'' ! (n mod 10)])"
  by pat_completeness auto
termination
  by (relation "measure (\<lambda>n. n)") auto

declare show_nat.simps [simp del]

definition show_int :: "int \<Rightarrow> string" where
  "show_int i = (if i < 0 then CHR ''-'' # show_nat (nat (- i)) else show_nat (nat i))"

fun show_num :: "jsnum \<Rightarrow> string" where
  "show_num NaN = ''NaN''"
| "show_num PosInfinity = ''Infinity''"
| "show_num NegInfinity = ''-Infinity''"
| "show_num (Fin i) = show_int i"

fun join :: "string \<Rightarrow> string list \<Rightarrow> string" where
  "join sep [] = []"
| "join sep [x] = x"
| "join sep (x # y # ys) = x @ sep @ join sep (y # ys)"

subsection \<open>Own properties\<close>

text \<open>
  \<^verbatim>\<open>hasOwnProperty\<close> and \<^verbatim>\<open>obj[key]\<close>: an array and a string own their indices (written
  in canonical decimal) and \<^verbatim>\<open>length\<close>; a function owns \<^verbatim>\<open>length\<close>, \<^verbatim>\<open>name\<close> and its further
  properties; a plain object owns the listed properties; the other values own nothing.
  Reading a property that is not an own property gives undefined.
\<close>

fun own_props :: "jsval \<Rightarrow> (string \<times> jsval) list" where
  "own_props (JObj ps) = ps"
| "own_props (JFunction n nm ps) =
     (''length'', JNum (Fin (int n))) # (''name'', JStr nm) # ps"
| "own_props (JArr xs) =
     zip (map show_nat [0..<length xs]) xs @ [(''length'', JNum (Fin (int (length xs))))]"
| "own_props (JStr s) =
     zip (map show_nat [0..<length s]) (map (\<lambda>c. JStr [c]) s)
       @ [(''length'', JNum (Fin (int (length s))))]"
| "own_props _ = []"

definition own_prop :: "jsval \<Rightarrow> string \<Rightarrow> jsval option" where
  "own_prop obj key = map_of (own_props obj) key"

definition read_prop :: "jsval \<Rightarrow> string \<Rightarrow> jsval" where
  "read_prop obj key = (case own_prop obj key of Some v \<Rightarrow> v | None \<Rightarrow> JUndefined)"

definition Object_keys :: "(string \<times> 'a) list \<Rightarrow> string list" where
  "Object_keys ps = map fst ps"

subsection \<open>The lodash predicates the source calls\<close>

fun isNull :: "jsval \<Rightarrow> bool" where
  "isNull JNull = True"
| "isNull _ = False"

fun isUndefined :: "jsval \<Rightarrow> bool" where
  "isUndefined JUndefined = True"
| "isUndefined _ = False"

fun isNil :: "jsval \<Rightarrow> bool" where
  "isNil JNull = True"
| "isNil JUndefined = True"
| "isNil _ = False"

fun isString :: "jsval \<Rightarrow> bool" where
  "isString (JStr _) = True"
| "isString _ = False"

fun isNumber :: "jsval \<Rightarrow> bool" where
  "isNumber (JNum _) = True"
| "isNumber _ = False"

fun isBoolean :: "jsval \<Rightarrow> bool" where
  "isBoolean (JBool _) = True"
| "isBoolean _ = False"

fun isDate :: "jsval \<Rightarrow> bool" where
  "isDate (JDate _) = True"
| "isDate _ = False"

fun isArray :: "jsval \<Rightarrow> bool" where
  "isArray (JArr _) = True"
| "isArray _ = False"

fun isPlainObject :: "jsval \<Rightarrow> bool" where
  "isPlainObject (JObj _) = True"
| "isPlainObject _ = False"

text \<open>\<^verbatim>\<open>_.isObject\<close>: the value is not null and its \<^verbatim>\<open>typeof\<close> is object or function.\<close>

fun isObject :: "jsval \<Rightarrow> bool" where
  "isObject (JObj _) = True"
| "isObject (JArr _) = True"
| "isObject (JDate _) = True"
| "isObject (JFunction _ _ _) = True"
| "isObject _ = False"

fun typeof :: "jsval \<Rightarrow> string" where
  "typeof JUndefined = ''undefined''"
| "typeof (JBool _) = ''boolean''"
| "typeof (JNum _) = ''number''"
| "typeof (JStr _) = ''string''"
| "typeof (JFunction _ _ _) = ''function''"
| "typeof _ = ''object''"

text \<open>\<^verbatim>\<open>_.defaultTo(value, defaultValue)\<close>: the default replaces NaN, null and undefined.\<close>

fun defaultTo :: "jsval \<Rightarrow> jsval \<Rightarrow> jsval" where
  "defaultTo JNull dv = dv"
| "defaultTo JUndefined dv = dv"
| "defaultTo (JNum NaN) dv = dv"
| "defaultTo v dv = v"

subsection \<open>\<^verbatim>\<open>_.has\<close>\<close>

text \<open>
  \<^verbatim>\<open>_.has(object, path)\<close> of lodash 4 reads a string as a property path. \<^verbatim>\<open>castPath\<close> keeps
  the string as one key when \<^verbatim>\<open>isKey\<close> holds and splits it with \<^verbatim>\<open>stringToPath\<close>
  otherwise; \<^verbatim>\<open>hasPath\<close> then walks the keys through own properties.

  The three regular expressions of lodash are written out as scanners:
  \<^verbatim>\<open>reIsPlainProp = /^\w*$/\<close>,
  \<^verbatim>\<open>reIsDeepProp = /\.|\[(?:[^[\]]*|(["'])(?:(?!\1)[^\\]|\\.)*?\1)\]/\<close> and
  \<^verbatim>\<open>rePropName = /[^.[\]]+|\[(?:(-?\d+(?:\.\d+)?)|(["'])((?:(?!\2)[^\\]|\\.)*?)\2)\]|(?=(?:\.|\[\])(?:\.|\[\]|$))/g\<close>.
\<close>

definition word_char :: "char \<Rightarrow> bool" where
  "word_char c =
     (c \<in> set ''abcdefghijklmnopqrstuvwxyzABCDEFGHIJKLMNOPQRSTUVWXYZ0123456789_'')"

definition digit :: "char \<Rightarrow> bool" where
  "digit c = (c \<in> set ''0123456789'')"

definition special :: "char \<Rightarrow> bool" where
  "special c = (c = CHR ''.'' \<or> c = CHR ''['' \<or> c = CHR '']'')"

definition backslash :: char where
  "backslash = CHR 0x5C"

definition is_quote :: "char \<Rightarrow> bool" where
  "is_quote c = (c = CHR 0x22 \<or> c = CHR 0x27)"

definition line_terminator :: "char \<Rightarrow> bool" where
  "line_terminator c = (c = CHR 0x0A \<or> c = CHR 0x0D)"

definition reIsPlainProp :: "string \<Rightarrow> bool" where
  "reIsPlainProp s = list_all word_char s"

text \<open>After an opening bracket: \<^verbatim>\<open>[^[\]]*\]\<close>.\<close>

fun bracket_plain :: "string \<Rightarrow> bool" where
  "bracket_plain [] = False"
| "bracket_plain (c # cs) =
     (if c = CHR '']'' then True else if c = CHR ''['' then False else bracket_plain cs)"

text \<open>
  After an opening quote \<open>q\<close>: \<^verbatim>\<open>((?:(?!q)[^\\]|\\.)*?)q\]\<close>, giving the text between the
  quotes and the rest of the string after the closing bracket.
\<close>

fun quoted_body :: "char \<Rightarrow> string \<Rightarrow> (string \<times> string) option" where
  "quoted_body q [] = None"
| "quoted_body q [c] = None"
| "quoted_body q (c # d # rest) =
     (if c = q then (if d = CHR '']'' then Some ([], rest) else None)
      else if c = backslash then
        (if line_terminator d then None
         else map_option (\<lambda>(s, r). (c # d # s, r)) (quoted_body q rest))
      else map_option (\<lambda>(s, r). (c # s, r)) (quoted_body q (d # rest)))"

definition bracket_quoted :: "string \<Rightarrow> (string \<times> string) option" where
  "bracket_quoted cs =
     (case cs of [] \<Rightarrow> None | q # r \<Rightarrow> if is_quote q then quoted_body q r else None)"

fun reIsDeepProp :: "string \<Rightarrow> bool" where
  "reIsDeepProp [] = False"
| "reIsDeepProp (c # cs) =
     (c = CHR ''.''
      \<or> (c = CHR ''['' \<and> (bracket_plain cs \<or> bracket_quoted cs \<noteq> None))
      \<or> reIsDeepProp cs)"

text \<open>After an opening bracket: \<^verbatim>\<open>(-?\d+(?:\.\d+)?)\]\<close>.\<close>

definition bracket_number :: "string \<Rightarrow> (string \<times> string) option" where
  "bracket_number cs =
     (let (sign, r0) = (case cs of [] \<Rightarrow> ([], cs)
                        | c # r \<Rightarrow> if c = CHR ''-'' then ([c], r) else ([], cs));
          ds = takeWhile digit r0;
          r1 = dropWhile digit r0
      in if ds = [] then None
         else (case r1 of
                 [] \<Rightarrow> None
               | c # r2 \<Rightarrow>
                   if c = CHR '']'' then Some (sign @ ds, r2)
                   else if c = CHR ''.'' then
                     (let fs = takeWhile digit r2; r3 = dropWhile digit r2
                      in if fs = [] then None
                         else (case r3 of
                                 [] \<Rightarrow> None
                               | c' # r4 \<Rightarrow>
                                   if c' = CHR '']'' then Some (sign @ ds @ [c] @ fs, r4)
                                   else None))
                   else None))"

text \<open>\<^verbatim>\<open>subString.replace(/\\(\\)?/g, '$1')\<close>\<close>

fun unescape :: "string \<Rightarrow> string" where
  "unescape [] = []"
| "unescape [c] = (if c = backslash then [] else [c])"
| "unescape (c # d # cs) =
     (if c = backslash then (if d = backslash then d # unescape cs else unescape (d # cs))
      else c # unescape (d # cs))"

definition bracket_token :: "string \<Rightarrow> (string \<times> string) option" where
  "bracket_token cs =
     (case bracket_number cs of
        Some t \<Rightarrow> Some t
      | None \<Rightarrow> map_option (\<lambda>(s, r). (unescape s, r)) (bracket_quoted cs))"

text \<open>The lookahead \<^verbatim>\<open>(?=(?:\.|\[\])(?:\.|\[\]|$))\<close>.\<close>

definition strip_sep :: "string \<Rightarrow> string option" where
  "strip_sep s =
     (case s of
        [] \<Rightarrow> None
      | c # r \<Rightarrow>
          if c = CHR ''.'' then Some r
          else (case r of
                  [] \<Rightarrow> None
                | d # r' \<Rightarrow> if c = CHR ''['' \<and> d = CHR '']'' then Some r' else None))"

definition empty_key_ahead :: "string \<Rightarrow> bool" where
  "empty_key_ahead s =
     (case strip_sep s of None \<Rightarrow> False | Some r \<Rightarrow> r = [] \<or> strip_sep r \<noteq> None)"

lemma quoted_body_length:
  "quoted_body q cs = Some (s, r) \<Longrightarrow> length r < length cs"
proof (induction q cs arbitrary: s rule: quoted_body.induct)
  case (3 q c d rest)
  show ?case
  proof (cases "c = q")
    case True
    with 3(3) show ?thesis by (simp split: if_splits)
  next
    case False
    show ?thesis
    proof (cases "c = backslash")
      case True
      with False 3(3) obtain s' where "\<not> line_terminator d" "quoted_body q rest = Some (s', r)"
        by (auto split: if_splits)
      with 3(1) [of s'] False True show ?thesis by simp
    next
      case nb: False
      with False 3(3) obtain s' where "quoted_body q (d # rest) = Some (s', r)"
        by (auto split: if_splits)
      with 3(2) [of s'] False nb show ?thesis by simp
    qed
  qed
qed simp_all

lemma bracket_quoted_length:
  "bracket_quoted cs = Some (s, r) \<Longrightarrow> length r < length cs"
  by (auto simp: bracket_quoted_def split: list.splits if_splits
           dest: quoted_body_length)

lemma dropWhile_Cons_length:
  "dropWhile P xs = y # ys \<Longrightarrow> length ys < length xs"
  using length_dropWhile_le [of P xs] by simp

lemma bracket_number_length:
  "bracket_number cs = Some (s, r) \<Longrightarrow> length r < length cs"
  by (auto simp: bracket_number_def Let_def
           split: list.splits if_splits prod.splits
           dest!: dropWhile_Cons_length)

lemma bracket_token_length:
  "bracket_token cs = Some (s, r) \<Longrightarrow> length r < length cs"
  by (auto simp: bracket_token_def split: option.splits
           dest: bracket_number_length bracket_quoted_length)

text \<open>
  The matches of \<^verbatim>\<open>rePropName\<close> from left to right, each as the key that the callback of
  \<^verbatim>\<open>stringToPath\<close> pushes. After an empty match the search goes on one character later.
\<close>

function rePropName_keys :: "string \<Rightarrow> string list" where
  "rePropName_keys [] = []"
| "rePropName_keys (c # cs) =
     (if \<not> special c then
        (c # takeWhile (\<lambda>x. \<not> special x) cs)
          # rePropName_keys (dropWhile (\<lambda>x. \<not> special x) cs)
      else (case (if c = CHR ''['' then bracket_token cs else None) of
              Some (tok, rest) \<Rightarrow> tok # rePropName_keys rest
            | None \<Rightarrow>
                if empty_key_ahead (c # cs) then [] # rePropName_keys cs
                else rePropName_keys cs))"
  by pat_completeness auto
termination
proof (relation "measure length")
  fix c cs x2 tok rest
  assume "(if c = CHR ''['' then bracket_token cs else None) = Some x2" "(tok, rest) = x2"
  then have "bracket_token cs = Some (tok, rest)"
    by (simp split: if_splits)
  then show "(rest, c # cs) \<in> measure length"
    using bracket_token_length by fastforce
qed (auto simp: length_dropWhile_le less_Suc_eq_le)

definition stringToPath :: "string \<Rightarrow> string list" where
  "stringToPath s =
     (case s of [] \<Rightarrow> [] | c # _ \<Rightarrow> if c = CHR ''.'' then [[]] else []) @ rePropName_keys s"

text \<open>
  \<^verbatim>\<open>isKey\<close> ends with \<^verbatim>\<open>value in Object(object)\<close>, which also finds inherited properties.
  That test decides only for a string that \<^verbatim>\<open>reIsDeepProp\<close> matches, and no property of
  a standard prototype has a dot or a bracket in its name, so own properties are enough.
\<close>

definition isKey :: "string \<Rightarrow> jsval \<Rightarrow> bool" where
  "isKey path object =
     (reIsPlainProp path \<or> \<not> reIsDeepProp path
      \<or> (\<not> isNil object \<and> own_prop object path \<noteq> None))"

definition castPath :: "string \<Rightarrow> jsval \<Rightarrow> string list" where
  "castPath path object = (if isKey path object then [path] else stringToPath path)"

definition baseHas :: "jsval \<Rightarrow> string \<Rightarrow> bool" where
  "baseHas object key = (\<not> isNil object \<and> own_prop object key \<noteq> None)"

text \<open>
  The end of \<^verbatim>\<open>hasPath\<close>: when the last key is not an own property, an array still has it
  if the key is one of its indices (this is for the holes of a sparse array).
\<close>

fun index_in_length :: "jsval \<Rightarrow> string \<Rightarrow> bool" where
  "index_in_length (JArr xs) key = (key \<in> set (map show_nat [0..<length xs]))"
| "index_in_length _ key = False"

fun hasPath_keys :: "jsval \<Rightarrow> string list \<Rightarrow> bool" where
  "hasPath_keys object [] = False"
| "hasPath_keys object [key] = (baseHas object key \<or> index_in_length object key)"
| "hasPath_keys object (key # keys) =
     (baseHas object key \<and> hasPath_keys (read_prop object key) keys)"

definition has :: "jsval \<Rightarrow> string \<Rightarrow> bool" where
  "has object path = (\<not> isNil object \<and> hasPath_keys object (castPath path object))"

section \<open>Failures and decoders\<close>

text \<open>
  What a decoder can throw: a \<^verbatim>\<open>DecodeError\<close>, with its \<^verbatim>\<open>plain_message\<close> and its
  \<^verbatim>\<open>inner_error\<close> (\<open>None\<close> is null), or a value of another kind, such as a
  \<^verbatim>\<open>TypeError\<close>, which has neither field. The constructor of \<^verbatim>\<open>DecodeError\<close> sets
  \<^verbatim>\<open>message\<close> to the banner followed by the plain message.
\<close>

datatype thrown = DecodeError string "thrown option" | OtherError string

fun plain_message :: "thrown \<Rightarrow> string option" where
  "plain_message (DecodeError m i) = Some m"
| "plain_message (OtherError m) = None"

fun inner_error :: "thrown \<Rightarrow> thrown option" where
  "inner_error (DecodeError m i) = i"
| "inner_error (OtherError m) = None"

fun message :: "thrown \<Rightarrow> string" where
  "message (DecodeError m i) = ''Decode Failure: '' @ m"
| "message (OtherError m) = m"

definition fail :: "string \<Rightarrow> thrown" where
  "fail m = DecodeError m None"

text \<open>\<^verbatim>\<open>e.plain_message || ''\<close>\<close>

definition plain_message_or_empty :: "thrown \<Rightarrow> string" where
  "plain_message_or_empty e = (case plain_message e of Some m \<Rightarrow> m | None \<Rightarrow> [])"

text \<open>
  A template literal prints null as \<^verbatim>\<open>null\<close> and undefined as \<^verbatim>\<open>undefined\<close>. An
  expectation is a string or null; a plain message read from a caught value is a string
  or undefined.
\<close>

definition template_nullable :: "string option \<Rightarrow> string" where
  "template_nullable x = (case x of Some s \<Rightarrow> s | None \<Rightarrow> ''null'')"

definition template_optional :: "string option \<Rightarrow> string" where
  "template_optional x = (case x of Some s \<Rightarrow> s | None \<Rightarrow> ''undefined'')"

fun actualValueDescription :: "jsval \<Rightarrow> string" where
  "actualValueDescription JNull = ''null''"
| "actualValueDescription JUndefined = ''undefined''"
| "actualValueDescription (JStr s) = ''['' @ s @ '']''"
| "actualValueDescription (JNum n) = ''['' @ show_num n @ '']''"
| "actualValueDescription (JObj ps) =
     ''an object with the properties ['' @ join '', '' (Object_keys ps) @ '']''"
| "actualValueDescription v = typeof v"

record decoder =
  run :: "jsval \<Rightarrow> thrown + jsval"
  expectation :: "string option"

definition hardcoded :: "jsval \<Rightarrow> decoder" where
  "hardcoded v = \<lparr>run = (\<lambda>obj. Inr v), expectation = None\<rparr>"

definition nullable :: "decoder \<Rightarrow> decoder" where
  "nullable d =
     (let expectation' = ''be null or '' @ template_nullable (expectation d)
      in \<lparr>run = (\<lambda>obj.
              if isNull obj then Inr JNull
              else (case run d obj of
                      Inr r \<Rightarrow> Inr r
                    | Inl e \<Rightarrow>
                        Inl (DecodeError
                          (''Expected the value to '' @ expectation' @ '' but got ''
                             @ actualValueDescription obj @ ''. '' @ plain_message_or_empty e)
                          (Some e)))),
           expectation = Some expectation'\<rparr>)"

definition optional :: "string \<Rightarrow> decoder \<Rightarrow> decoder" where
  "optional path d =
     \<lparr>run = (\<lambda>obj.
        if \<not> has obj path then Inr JNull
        else (let v = read_prop obj path
              in if isUndefined v then Inr JNull else run (nullable d) v)),
      expectation = Some (template_nullable (expectation d) @ '' optionally at ['' @ path @ '']'')\<rparr>"

definition required :: "string \<Rightarrow> decoder \<Rightarrow> decoder" where
  "required path d =
     \<lparr>run = (\<lambda>obj.
        if \<not> has obj path then
          Inl (DecodeError
            (''Expected the value at ['' @ path @ ''] to '' @ template_nullable (expectation d)
               @ '' but there was none.'') None)
        else (case run d (read_prop obj path) of
                Inr r \<Rightarrow> Inr r
              | Inl e \<Rightarrow>
                  Inl (DecodeError
                    (''Expected the value at ['' @ path @ ''] to ''
                       @ template_nullable (expectation d) @ ''. '' @ plain_message_or_empty e)
                    (Some e)))),
      expectation = Some (template_nullable (expectation d) @ '' at ['' @ path @ '']'')\<rparr>"

definition withDefault :: "jsval \<Rightarrow> decoder \<Rightarrow> decoder" where
  "withDefault default_value d =
     \<lparr>run = (\<lambda>obj. case run d obj of Inl e \<Rightarrow> Inl e | Inr r \<Rightarrow> Inr (defaultTo r default_value)),
      expectation = expectation d\<rparr>"

definition str :: decoder where
  "str =
     (let expectation' = ''be a string''
      in \<lparr>run = (\<lambda>obj.
              if \<not> isString obj then
                Inl (DecodeError (''Expected to '' @ expectation' @ '' but got ''
                                    @ actualValueDescription obj @ ''.'') None)
              else Inr obj),
           expectation = Some expectation'\<rparr>)"

definition date :: decoder where
  "date =
     (let expectation' = ''be a date''
      in \<lparr>run = (\<lambda>obj.
              if \<not> isDate obj then
                Inl (DecodeError (''Expected to '' @ expectation' @ '' but got ''
                                    @ actualValueDescription obj @ ''.'') None)
              else Inr obj),
           expectation = Some expectation'\<rparr>)"

definition bool :: decoder where
  "bool =
     (let expectation' = ''be a boolean''
      in \<lparr>run = (\<lambda>obj.
              if \<not> isBoolean obj then
                Inl (DecodeError (''Expected to '' @ expectation' @ '' but got ''
                                    @ actualValueDescription obj @ ''.'') None)
              else Inr obj),
           expectation = Some expectation'\<rparr>)"

definition number :: decoder where
  "number =
     (let expectation' = ''be a number''
      in \<lparr>run = (\<lambda>obj.
              if \<not> isNumber obj then
                Inl (DecodeError (''Expected to '' @ expectation' @ '' but got ''
                                    @ actualValueDescription obj @ ''.'') None)
              else Inr obj),
           expectation = Some expectation'\<rparr>)"

definition anyObject :: decoder where
  "anyObject =
     (let expectation' = ''be an object''
      in \<lparr>run = (\<lambda>obj.
              if \<not> isObject obj then
                Inl (DecodeError (''Expected to '' @ expectation' @ '' but got ''
                                    @ actualValueDescription obj @ ''.'') None)
              else Inr obj),
           expectation = Some expectation'\<rparr>)"

text \<open>\<^verbatim>\<open>_.map(obj, decoder)\<close>: the elements in order; the first throw ends the call.\<close>

fun map_elements :: "(jsval \<Rightarrow> thrown + jsval) \<Rightarrow> jsval list \<Rightarrow> thrown + jsval list" where
  "map_elements f [] = Inr []"
| "map_elements f (x # xs) =
     (case f x of
        Inl e \<Rightarrow> Inl e
      | Inr y \<Rightarrow> (case map_elements f xs of Inl e \<Rightarrow> Inl e | Inr ys \<Rightarrow> Inr (y # ys)))"

fun elements :: "jsval \<Rightarrow> jsval list" where
  "elements (JArr xs) = xs"
| "elements _ = []"

definition array :: "decoder \<Rightarrow> decoder" where
  "array d =
     (let expectation' = ''be an array where each element should '' @ template_nullable (expectation d)
      in \<lparr>run = (\<lambda>obj.
              if \<not> isArray obj then
                Inl (DecodeError (''Expected to '' @ expectation' @ '' but got ''
                                    @ actualValueDescription obj @ ''.'') None)
              else (case map_elements (run d) (elements obj) of
                      Inl e \<Rightarrow> Inl e
                    | Inr ys \<Rightarrow> Inr (JArr ys))),
           expectation = Some expectation'\<rparr>)"

text \<open>
  The loop of \<^verbatim>\<open>dictionary\<close> inside its \<^verbatim>\<open>try\<close>: a throw leaves the loop with
  \<^verbatim>\<open>prop_name\<close> at the key being decoded. \<^verbatim>\<open>result[prop_name] = v\<close> is an update of the
  property list.
\<close>

fun dictionary_loop ::
  "decoder \<Rightarrow> jsval \<Rightarrow> string list \<Rightarrow> (string \<times> jsval) list
    \<Rightarrow> (string \<times> thrown) + (string \<times> jsval) list" where
  "dictionary_loop d obj [] result = Inr result"
| "dictionary_loop d obj (prop_name # names) result =
     (case run d (read_prop obj prop_name) of
        Inl e \<Rightarrow> Inl (prop_name, e)
      | Inr v \<Rightarrow> dictionary_loop d obj names (AList.update prop_name v result))"

definition dictionary :: "decoder \<Rightarrow> decoder" where
  "dictionary d =
     (let expectation' = ''be a dictionary object where each value should ''
                          @ template_nullable (expectation d)
      in \<lparr>run = (\<lambda>obj.
              if \<not> isPlainObject obj then
                Inl (DecodeError (''Expected the value to '' @ expectation' @ '' but got ''
                                    @ actualValueDescription obj @ ''.'') None)
              else (case dictionary_loop d obj (Object_keys (own_props obj)) [] of
                      Inr result \<Rightarrow> Inr (JObj result)
                    | Inl (prop_name, e) \<Rightarrow>
                        Inl (DecodeError
                          (''Expected the value with the key ['' @ prop_name @ ''] to ''
                             @ template_nullable (expectation d) @ ''. ''
                             @ plain_message_or_empty e) None))),
           expectation = Some expectation'\<rparr>)"

text \<open>
  The loop of \<^verbatim>\<open>object\<close>: \<^verbatim>\<open>props[prop_name]\<close> is looked up for every key of
  \<^verbatim>\<open>Object.keys(props)\<close> and called on the whole input. The handler builds its message from
  the expectation of \<^verbatim>\<open>props[prop_name]\<close> and from
  \<^verbatim>\<open>_.isNil(e.inner_error) ? e.plain_message : e.inner_error.plain_message\<close>.
  A name without a decoder would make the call, and then the handler, throw a
  \<^verbatim>\<open>TypeError\<close>; it does not occur, since the names are the keys of \<^verbatim>\<open>props\<close>.
\<close>

fun object_loop ::
  "(string \<times> decoder) list \<Rightarrow> jsval \<Rightarrow> string list \<Rightarrow> (string \<times> jsval) list
    \<Rightarrow> (string \<times> thrown) + (string \<times> jsval) list" where
  "object_loop props obj [] result = Inr result"
| "object_loop props obj (prop_name # names) result =
     (case map_of props prop_name of
        None \<Rightarrow> Inl (prop_name, OtherError ''TypeError'')
      | Some d \<Rightarrow>
          (case run d obj of
             Inl e \<Rightarrow> Inl (prop_name, e)
           | Inr v \<Rightarrow> object_loop props obj names (AList.update prop_name v result)))"

definition handler_inner_error :: "thrown \<Rightarrow> string option" where
  "handler_inner_error e =
     (case inner_error e of None \<Rightarrow> plain_message e | Some i \<Rightarrow> plain_message i)"

definition object :: "(string \<times> decoder) list \<Rightarrow> decoder" where
  "object props =
     \<lparr>run = (\<lambda>obj.
        case object_loop props obj (Object_keys props) [] of
          Inr result \<Rightarrow> Inr (JObj result)
        | Inl (prop_name, e) \<Rightarrow>
            (case map_of props prop_name of
               None \<Rightarrow> Inl (OtherError ''TypeError'')
             | Some d \<Rightarrow>
                 Inl (DecodeError
                   (''Expected the value to '' @ template_nullable (expectation d) @ ''. ''
                      @ template_optional (handler_inner_error e)) None))),
      expectation =
        Some (''be an object with the properties ['' @ join '', '' (Object_keys props) @ '']'')\<rparr>"

text \<open>
  The failures of \<^verbatim>\<open>enumeration\<close> print the input with a template literal, \<^verbatim>\<open>[${obj}]\<close>.
  For null, undefined, a boolean, a number and a string the text is fixed. For an object
  the conversion runs the \<^verbatim>\<open>toString\<close> and \<^verbatim>\<open>valueOf\<close> that the object owns or inherits,
  which a value does not hold, and it throws a \<^verbatim>\<open>TypeError\<close> when they give no primitive:
  it is the parameter \<open>object_text\<close>. \<^verbatim>\<open>_.includes(options, obj)\<close> compares a string with
  the options; \<^verbatim>\<open>coerce\<close> is the caller's function and may throw.
\<close>

fun template_text :: "(jsval \<Rightarrow> thrown + string) \<Rightarrow> jsval \<Rightarrow> thrown + string" where
  "template_text object_text JNull = Inr ''null''"
| "template_text object_text JUndefined = Inr ''undefined''"
| "template_text object_text (JBool b) = Inr (if b then ''true'' else ''false'')"
| "template_text object_text (JNum n) = Inr (show_num n)"
| "template_text object_text (JStr s) = Inr s"
| "template_text object_text v = object_text v"

fun includes_string :: "string list \<Rightarrow> jsval \<Rightarrow> bool" where
  "includes_string options (JStr s) = (s \<in> set options)"
| "includes_string options _ = False"

definition enumeration ::
  "(jsval \<Rightarrow> thrown + string) \<Rightarrow> (jsval \<Rightarrow> thrown + jsval) \<Rightarrow> string list \<Rightarrow> decoder" where
  "enumeration object_text coerce options =
     (let expectation' = ''to be one of ['' @ join '', '' options @ '']''
      in \<lparr>run = (\<lambda>obj.
              if \<not> isString obj then
                (case template_text object_text obj of
                   Inl e \<Rightarrow> Inl e
                 | Inr t \<Rightarrow> Inl (DecodeError (expectation' @ '' but got ['' @ t @ '']'') None))
              else if \<not> includes_string options obj then
                (case template_text object_text obj of
                   Inl e \<Rightarrow> Inl e
                 | Inr t \<Rightarrow> Inl (DecodeError (expectation' @ '' but got ['' @ t @ '']'') None))
              else coerce obj),
           expectation = Some expectation'\<rparr>)"

text \<open>
  \<^verbatim>\<open>custom\<close> wraps a function that may return or throw anything. \<^verbatim>\<open>dependent\<close> calls its
  selector once with null when it is built, to read the expectation, and the selector
  may throw there.
\<close>

definition custom :: "(jsval \<Rightarrow> thrown + jsval) \<Rightarrow> string \<Rightarrow> decoder" where
  "custom f expectation' = \<lparr>run = (\<lambda>obj. f obj), expectation = Some expectation'\<rparr>"

definition dependent :: "decoder \<Rightarrow> (jsval \<Rightarrow> thrown + decoder) \<Rightarrow> thrown + decoder" where
  "dependent d dependentDecoder =
     (case dependentDecoder JNull of
        Inl e \<Rightarrow> Inl e
      | Inr probe \<Rightarrow>
          Inr \<lparr>run = (\<lambda>obj.
                 case run d obj of
                   Inl e \<Rightarrow> Inl e
                 | Inr pivot \<Rightarrow>
                     (case dependentDecoder pivot of
                        Inl e \<Rightarrow> Inl e
                      | Inr second \<Rightarrow> run second obj)),
               expectation = expectation probe\<rparr>)"

definition withoutValidation :: decoder where
  "withoutValidation = \<lparr>run = (\<lambda>obj. Inr obj), expectation = Some ''be any value''\<rparr>"

section \<open>Decoders built from the library\<close>

text \<open>
  \<open>lib_decoder d A T\<close>: the decoder \<open>d\<close> is built by the combinators above, \<open>T\<close> holds the
  values of its declared output type, and \<open>A\<close> holds the inputs on which nothing that \<open>d\<close>
  calls from outside the library goes wrong. The types are those of the signatures in
  \<^verbatim>\<open>src/index.ts\<close>: \<^verbatim>\<open>Decoder<string>\<close> for \<^verbatim>\<open>str\<close>, \<^verbatim>\<open>Decoder<T | null>\<close> for
  \<^verbatim>\<open>nullable\<close> and \<^verbatim>\<open>optional\<close>, \<^verbatim>\<open>Decoder<T[]>\<close> for \<^verbatim>\<open>array\<close>, and so on; for
  \<^verbatim>\<open>object\<close> the functions \<open>A\<close> and \<open>T\<close> give the inputs and the type of each field.

  What comes from outside: the function wrapped by \<^verbatim>\<open>custom\<close>, whose inputs are those on
  which it returns a value of its declared type or throws a \<^verbatim>\<open>DecodeError\<close>; the selector
  of \<^verbatim>\<open>dependent\<close> and the \<^verbatim>\<open>coerce\<close> of \<^verbatim>\<open>enumeration\<close>, which are admitted when they do
  so on every pivot of the first decoder's type and on every option; and the conversion
  of an object to text in the message of \<^verbatim>\<open>enumeration\<close>, which must not throw on the
  input.
  \<^verbatim>\<open>required\<close>, \<^verbatim>\<open>optional\<close>, \<^verbatim>\<open>nullable\<close>, \<^verbatim>\<open>array\<close> and \<^verbatim>\<open>dictionary\<close> hand a part of their
  input to the decoder they wrap, and their inputs are those whose part is an input of
  that decoder; the inputs of \<^verbatim>\<open>dependent\<close> are those of the first decoder that are
  inputs of the decoder selected for their pivot.
\<close>

inductive lib_decoder :: "decoder \<Rightarrow> jsval set \<Rightarrow> jsval set \<Rightarrow> bool" where
  lib_str: "lib_decoder str UNIV {r. isString r}"
| lib_date: "lib_decoder date UNIV {r. isDate r}"
| lib_bool: "lib_decoder bool UNIV {r. isBoolean r}"
| lib_number: "lib_decoder number UNIV {r. isNumber r}"
| lib_anyObject: "lib_decoder anyObject UNIV {r. isObject r}"
| lib_withoutValidation: "lib_decoder withoutValidation UNIV UNIV"
| lib_hardcoded: "lib_decoder (hardcoded x) UNIV {x}"
| lib_nullable:
    "lib_decoder d A T \<Longrightarrow> lib_decoder (nullable d) (insert JNull A) (insert JNull T)"
| lib_optional:
    "lib_decoder d A T \<Longrightarrow>
     lib_decoder (optional path d)
       {v. has v path \<longrightarrow> read_prop v path \<in> insert JUndefined (insert JNull A)}
       (insert JNull T)"
| lib_required:
    "lib_decoder d A T \<Longrightarrow>
     lib_decoder (required path d) {v. has v path \<longrightarrow> read_prop v path \<in> A} T"
| lib_withDefault:
    "lib_decoder d A (insert JNull T) \<Longrightarrow> default_value \<in> T \<Longrightarrow>
     lib_decoder (withDefault default_value d) A T"
| lib_array:
    "lib_decoder d A T \<Longrightarrow>
     lib_decoder (array d) {v. set (elements v) \<subseteq> A} {JArr ys | ys. set ys \<subseteq> T}"
| lib_dictionary:
    "lib_decoder d A T \<Longrightarrow>
     lib_decoder (dictionary d)
       {v. isPlainObject v \<longrightarrow> (\<forall>k \<in> set (Object_keys (own_props v)). read_prop v k \<in> A)}
       {JObj r | r. snd ` set r \<subseteq> T}"
| lib_object:
    "\<forall>k d. map_of props k = Some d \<longrightarrow> lib_decoder d (A k) (T k) \<Longrightarrow>
     lib_decoder (object props)
       {v. \<forall>k \<in> set (Object_keys props). v \<in> A k}
       {JObj r | r. set (Object_keys r) = set (Object_keys props)
                    \<and> (\<forall>k x. map_of r k = Some x \<longrightarrow> x \<in> T k)}"
| lib_enumeration:
    "\<forall>s \<in> set options. (\<exists>r \<in> T. coerce (JStr s) = Inr r)
                          \<or> (\<exists>m i. coerce (JStr s) = Inl (DecodeError m i)) \<Longrightarrow>
     lib_decoder (enumeration object_text coerce options)
       {v. isObject v \<longrightarrow> (\<exists>t. object_text v = Inr t)} T"
| lib_custom:
    "\<forall>v \<in> A. (\<exists>r \<in> T. f v = Inr r) \<or> (\<exists>m i. f v = Inl (DecodeError m i)) \<Longrightarrow>
     lib_decoder (custom f expectation') A T"
| lib_dependent:
    "lib_decoder d A P \<Longrightarrow>
     \<forall>pivot \<in> P. (\<exists>second. f pivot = Inr second \<and> lib_decoder second (B pivot) T)
                   \<or> (\<exists>m i. f pivot = Inl (DecodeError m i)) \<Longrightarrow>
     dependent d f = Inr dd \<Longrightarrow>
     lib_decoder dd {v \<in> A. \<forall>pivot. run d v = Inr pivot \<longrightarrow> v \<in> B pivot} T"
| lib_subtype:
    "lib_decoder d A T \<Longrightarrow> A' \<subseteq> A \<Longrightarrow> T \<subseteq> T' \<Longrightarrow> lib_decoder d A' T'"

text \<open>What the claim promises of a call: a value of the declared type or one \<^verbatim>\<open>DecodeError\<close>.\<close>

definition returns_or_raises :: "jsval set \<Rightarrow> thrown + jsval \<Rightarrow> bool" where
  "returns_or_raises T res =
     ((\<exists>r \<in> T. res = Inr r) \<or> (\<exists>m i. res = Inl (DecodeError m i)))"

section \<open>The failure chain as the specification words it\<close>

text \<open>
  The specification of \<^verbatim>\<open>object\<close> speaks of the innermost failure of the chain that
  \<^verbatim>\<open>inner_error\<close> links: the failure reached by following \<^verbatim>\<open>inner_error\<close> to its end.
  This definition follows those words; \<open>handler_inner_error\<close> above is what the source
  computes.
\<close>

fun innermost :: "thrown \<Rightarrow> thrown" where
  "innermost (DecodeError m (Some i)) = innermost i"
| "innermost e = e"

definition deepest_plain_message :: "thrown \<Rightarrow> string option" where
  "deepest_plain_message e = plain_message (innermost e)"

section \<open>Auxiliary facts\<close>

lemmas lookup_defs =
  has_def castPath_def isKey_def reIsPlainProp_def word_char_def stringToPath_def special_def
  empty_key_ahead_def strip_sep_def baseHas_def own_prop_def read_prop_def Object_keys_def

lemmas text_defs =
  template_nullable_def template_optional_def plain_message_or_empty_def show_int_def
  show_nat.simps Let_def

lemma own_prop_not_nil: "own_prop v p = Some x \<Longrightarrow> \<not> isNil v"
  by (cases v) (simp_all add: own_prop_def)

lemma index_in_length_own: "index_in_length v p \<Longrightarrow> own_prop v p \<noteq> None"
proof (cases v)
  case (JArr xs)
  assume "index_in_length v p"
  with JArr have "p \<in> set (map show_nat [0..<length xs])" by simp
  then have "p \<in> fst ` set (zip (map show_nat [0..<length xs]) xs)"
    by (metis length_map length_upt map_fst_zip minus_nat.diff_0 set_map)
  then have "map_of (zip (map show_nat [0..<length xs]) xs) p \<noteq> None"
    by (simp add: map_of_eq_None_iff)
  with JArr show ?thesis
    by (auto simp: own_prop_def)
qed simp_all

lemma has_own_prop: "own_prop v p = Some x \<Longrightarrow> has v p"
  by (auto simp: has_def castPath_def isKey_def baseHas_def dest: own_prop_not_nil)

lemma has_single_key: "\<not> reIsDeepProp p \<Longrightarrow> has v p = (own_prop v p \<noteq> None)"
  using index_in_length_own [of v p]
  by (auto simp: has_def castPath_def isKey_def baseHas_def dest: own_prop_not_nil)

lemma read_prop_own: "own_prop v p = Some x \<Longrightarrow> read_prop v p = x"
  by (simp add: read_prop_def)

lemma read_prop_absent: "own_prop v p = None \<Longrightarrow> read_prop v p = JUndefined"
  by (simp add: read_prop_def)

lemma defaultTo_eq: "defaultTo r dv = (if isNil r \<or> r = JNum NaN then dv else r)"
  by (cases "(r, dv)" rule: defaultTo.cases) auto

lemma dictionary_loop_first_failure:
  "\<forall>n \<in> set earlier. \<exists>r. run d (read_prop obj n) = Inr r \<Longrightarrow>
   run d (read_prop obj k) = Inl e \<Longrightarrow>
   dictionary_loop d obj (earlier @ k # later) result = Inl (k, e)"
  by (induction earlier arbitrary: result) auto

lemma object_loop_first_failure:
  "\<forall>n \<in> set earlier. \<exists>dn r. map_of props n = Some dn \<and> run dn obj = Inr r \<Longrightarrow>
   map_of props k = Some dk \<Longrightarrow> run dk obj = Inl e \<Longrightarrow>
   object_loop props obj (earlier @ k # later) result = Inl (k, e)"
  by (induction earlier arbitrary: result) auto

lemma returns_or_raises_simps [simp]:
  "returns_or_raises T (Inr r) = (r \<in> T)"
  "returns_or_raises T (Inl (DecodeError m i)) = True"
  "returns_or_raises T (Inl (OtherError m)) = False"
  by (auto simp: returns_or_raises_def)

lemma returns_or_raises_cases:
  assumes "returns_or_raises T res"
  obtains r where "res = Inr r" "r \<in> T" | m i where "res = Inl (DecodeError m i)"
  using assms by (auto simp: returns_or_raises_def)

lemma map_elements_sound:
  "\<forall>x \<in> set xs. returns_or_raises T (f x) \<Longrightarrow>
   (\<exists>ys. map_elements f xs = Inr ys \<and> set ys \<subseteq> T)
   \<or> (\<exists>m i. map_elements f xs = Inl (DecodeError m i))"
proof (induction xs)
  case Nil
  then show ?case by simp
next
  case (Cons x xs)
  from Cons.prems have "returns_or_raises T (f x)" by simp
  then show ?case
  proof (cases rule: returns_or_raises_cases)
    case (1 r)
    with Cons show ?thesis by auto
  next
    case (2 m i)
    then show ?thesis by simp
  qed
qed

lemma set_update_values: "snd ` set (AList.update k v al) \<subseteq> insert v (snd ` set al)"
  by (induction al) auto

lemma dictionary_loop_sound:
  "\<forall>k \<in> set names. returns_or_raises T (run d (read_prop obj k)) \<Longrightarrow>
   snd ` set result \<subseteq> T \<Longrightarrow>
   (\<exists>r. dictionary_loop d obj names result = Inr r \<and> snd ` set r \<subseteq> T)
   \<or> (\<exists>k e. dictionary_loop d obj names result = Inl (k, e))"
proof (induction names arbitrary: result)
  case Nil
  then show ?case by simp
next
  case (Cons n names)
  from Cons.prems(1) have "returns_or_raises T (run d (read_prop obj n))" by simp
  then show ?case
  proof (cases rule: returns_or_raises_cases)
    case (1 r)
    with Cons.prems(2) have "insert r (snd ` set result) \<subseteq> T"
      by simp
    with set_update_values [of n r result] have "snd ` set (AList.update n r result) \<subseteq> T"
      by (rule subset_trans)
    with Cons.IH [of "AList.update n r result"] Cons.prems(1) 1 show ?thesis
      by simp
  next
    case (2 m i)
    then show ?thesis by simp
  qed
qed

lemma object_loop_sound:
  "\<forall>k \<in> set names. \<exists>d. map_of props k = Some d \<and> returns_or_raises (T k) (run d obj) \<Longrightarrow>
   \<forall>k x. map_of result k = Some x \<longrightarrow> x \<in> T k \<Longrightarrow>
   (\<exists>r. object_loop props obj names result = Inr r
        \<and> fst ` set r = fst ` set result \<union> set names
        \<and> (\<forall>k x. map_of r k = Some x \<longrightarrow> x \<in> T k))
   \<or> (\<exists>k e d. object_loop props obj names result = Inl (k, e) \<and> map_of props k = Some d)"
proof (induction names arbitrary: result)
  case Nil
  then show ?case by simp
next
  case (Cons n names)
  from Cons.prems(1) obtain d where d: "map_of props n = Some d"
    and "returns_or_raises (T n) (run d obj)" by auto
  from this(2) show ?case
  proof (cases rule: returns_or_raises_cases)
    case (1 r)
    with Cons.prems(2) have inv: "\<forall>k x. map_of (AList.update n r result) k = Some x \<longrightarrow> x \<in> T k"
      by (simp add: update_conv')
    have keys: "fst ` set (AList.update n r result) \<union> set names
                  = fst ` set result \<union> set (n # names)"
      by (auto simp: dom_update)
    from Cons.IH [OF _ inv] Cons.prems(1) d 1 keys show ?thesis
      by simp
  next
    case (2 m i)
    with d show ?thesis by simp
  qed
qed

lemma lib_decoder_sound:
  "lib_decoder d A T \<Longrightarrow> v \<in> A \<Longrightarrow> returns_or_raises T (run d v)"
proof (induction arbitrary: v rule: lib_decoder.induct)
  case (lib_nullable d A T)
  show ?case
  proof (cases "v = JNull")
    case True
    then show ?thesis by (simp add: nullable_def Let_def)
  next
    case False
    with lib_nullable.prems have "returns_or_raises T (run d v)"
      by (auto intro: lib_nullable.IH)
    with False show ?thesis
      by (cases v) (auto simp: nullable_def Let_def elim!: returns_or_raises_cases)
  qed
next
  case (lib_optional d A T path)
  show ?case
  proof (cases "has v path \<and> read_prop v path \<noteq> JUndefined \<and> read_prop v path \<noteq> JNull")
    case True
    with lib_optional.prems have "returns_or_raises T (run d (read_prop v path))"
      by (auto intro: lib_optional.IH)
    with True show ?thesis
      by (cases "read_prop v path")
         (auto simp: optional_def nullable_def Let_def elim!: returns_or_raises_cases)
  next
    case False
    then show ?thesis
      by (cases "read_prop v path") (auto simp: optional_def nullable_def Let_def)
  qed
next
  case (lib_required d A T path)
  show ?case
  proof (cases "has v path")
    case True
    with lib_required.prems have "returns_or_raises T (run d (read_prop v path))"
      by (auto intro: lib_required.IH)
    with True show ?thesis
      by (auto simp: required_def elim!: returns_or_raises_cases)
  next
    case False
    then show ?thesis by (simp add: required_def)
  qed
next
  case (lib_withDefault d A T default_value)
  from lib_withDefault.prems have "returns_or_raises (insert JNull T) (run d v)"
    by (rule lib_withDefault.IH)
  with lib_withDefault.hyps(2) show ?case
    by (auto simp: withDefault_def defaultTo_eq elim!: returns_or_raises_cases)
next
  case (lib_array d A T)
  show ?case
  proof (cases v)
    case (JArr xs)
    with lib_array.prems have "\<forall>x \<in> set xs. returns_or_raises T (run d x)"
      by (auto intro: lib_array.IH)
    from map_elements_sound [OF this] JArr show ?thesis
      by (auto simp: array_def Let_def)
  qed (simp_all add: array_def Let_def)
next
  case (lib_dictionary d A T)
  show ?case
  proof (cases v)
    case (JObj ps)
    with lib_dictionary.prems
    have "\<forall>k \<in> set (Object_keys ps). returns_or_raises T (run d (read_prop v k))"
      by (auto intro: lib_dictionary.IH)
    from dictionary_loop_sound [OF this, of "[]"] JObj show ?thesis
      by (auto simp: dictionary_def Let_def)
  qed (simp_all add: dictionary_def Let_def)
next
  case (lib_object props A T)
  have "\<forall>k \<in> set (Object_keys props).
          \<exists>d. map_of props k = Some d \<and> returns_or_raises (T k) (run d v)"
  proof
    fix k assume k: "k \<in> set (Object_keys props)"
    then have "map_of props k \<noteq> None"
      by (simp add: Object_keys_def map_of_eq_None_iff)
    then obtain d where d: "map_of props k = Some d" by blast
    with lib_object.IH lib_object.prems k have "returns_or_raises (T k) (run d v)"
      by auto
    with d show "\<exists>d. map_of props k = Some d \<and> returns_or_raises (T k) (run d v)"
      by blast
  qed
  from object_loop_sound [OF this, of "[]"] show ?case
    by (auto simp: object_def Object_keys_def)
next
  case (lib_enumeration options T coerce object_text)
  show ?case
  proof (cases v)
    case (JStr s)
    with lib_enumeration.hyps show ?thesis
      by (auto simp: enumeration_def Let_def returns_or_raises_def)
  qed (use lib_enumeration.prems in \<open>auto simp: enumeration_def Let_def\<close>)
next
  case (lib_custom A T f expectation')
  then show ?case
    by (auto simp: custom_def returns_or_raises_def)
next
  case (lib_dependent d A P f B T dd)
  from lib_dependent.prems have "returns_or_raises P (run d v)"
    by (auto intro: lib_dependent.IH(1))
  then show ?case
  proof (cases rule: returns_or_raises_cases)
    case (1 pivot)
    with lib_dependent.IH(2) lib_dependent.hyps(2) lib_dependent.prems show ?thesis
      by (fastforce simp: dependent_def split: sum.splits)
  next
    case (2 m i)
    with lib_dependent.hyps(2) show ?thesis
      by (auto simp: dependent_def split: sum.splits)
  qed
next
  case (lib_subtype d A T A' T')
  then have "returns_or_raises T (run d v)" by auto
  with lib_subtype.hyps(3) show ?case
    by (auto elim!: returns_or_raises_cases)
qed (auto simp: str_def date_def bool_def number_def anyObject_def withoutValidation_def
       hardcoded_def Let_def)

section \<open>The claims\<close>

subsection \<open>C1: the failure of an object decoder\<close>

text \<open>
  C1, as the source has it. The fields of \<^verbatim>\<open>object(props)\<close> are decoded in the order of
  \<^verbatim>\<open>Object.keys(props)\<close>. When the fields before \<open>k\<close> decode and the decoder \<open>dk\<close> of field
  \<open>k\<close> raises a \<^verbatim>\<open>DecodeError\<close> with plain message \<open>m\<close> and inner error \<open>i\<close>, the object
  decoder raises a \<^verbatim>\<open>DecodeError\<close> without inner error whose plain message is
  \<^verbatim>\<open>Expected the value to <dk.expectation>. <text>\<close>, where the text is \<open>m\<close> when \<open>i\<close> is
  null and the plain message of \<open>i\<close> itself otherwise: the handler looks one link down
  the chain, whatever the depth of the chain.
\<close>

theorem object_reports_immediate_inner_error:
  assumes "Object_keys props = earlier @ k # later"
    and "\<forall>n \<in> set earlier. \<exists>dn r. map_of props n = Some dn \<and> run dn obj = Inr r"
    and "map_of props k = Some dk"
    and "run dk obj = Inl (DecodeError m i)"
  shows "run (object props) obj =
           Inl (DecodeError
             (''Expected the value to '' @ template_nullable (expectation dk) @ ''. ''
                @ (case i of None \<Rightarrow> m | Some j \<Rightarrow> template_optional (plain_message j)))
             None)"
  using object_loop_first_failure [OF assms(2,3,4), of later "[]"] assms(1,3)
  by (simp add: object_def handler_inner_error_def template_optional_def split: option.splits)

text \<open>
  The two failing scenarios of the repository's tests: the field \<^verbatim>\<open>id\<close> is missing, and
  the field \<^verbatim>\<open>id\<close> holds a string.
\<close>

theorem object_reports_immediate_inner_error_witness:
  "map_sum message id
     (run (object [(''name'', required ''name'' str), (''id'', required ''id'' number)])
        (JObj [(''name'', JStr ''tester'')]))
     = Inl ''Decode Failure: Expected the value to be a number at [id]. Expected the value at [id] to be a number but there was none.''
   \<and> map_sum message id
     (run (object [(''name'', required ''name'' str), (''id'', required ''id'' number)])
        (JObj [(''name'', JStr ''tester''), (''id'', JStr ''invalid'')]))
     = Inl ''Decode Failure: Expected the value to be a number at [id]. Expected to be a number but got [invalid].''"
proof -
  let ?props = "[(''name'', required ''name'' str), (''id'', required ''id'' number)]"
  let ?missing = "JObj [(''name'', JStr ''tester'')]"
  let ?invalid = "JObj [(''name'', JStr ''tester''), (''id'', JStr ''invalid'')]"
  have keys: "Object_keys ?props = [''name''] @ ''id'' # []"
    by (simp add: Object_keys_def)
  have id: "map_of ?props ''id'' = Some (required ''id'' number)"
    by simp
  have name1: "\<forall>n \<in> set [''name'']. \<exists>dn r. map_of ?props n = Some dn \<and> run dn ?missing = Inr r"
    by (simp add: required_def str_def lookup_defs text_defs)
  have name2: "\<forall>n \<in> set [''name'']. \<exists>dn r. map_of ?props n = Some dn \<and> run dn ?invalid = Inr r"
    by (simp add: required_def str_def lookup_defs text_defs)
  have fail1: "run (required ''id'' number) ?missing =
      Inl (DecodeError ''Expected the value at [id] to be a number but there was none.'' None)"
    by (simp add: required_def number_def lookup_defs text_defs)
  have fail2: "run (required ''id'' number) ?invalid =
      Inl (DecodeError ''Expected the value at [id] to be a number. Expected to be a number but got [invalid].''
             (Some (DecodeError ''Expected to be a number but got [invalid].'' None)))"
    by (simp add: required_def number_def lookup_defs text_defs)
  have e: "expectation (required ''id'' number) = Some ''be a number at [id]''"
    by (simp add: required_def number_def text_defs)
  show ?thesis
    using object_reports_immediate_inner_error [OF keys name1 id fail1]
      object_reports_immediate_inner_error [OF keys name2 id fail2] e
    by (simp add: text_defs)
qed

text \<open>
  C1 as stated fails on a chain of two links. The field decoder
  \<^verbatim>\<open>required('a', required('b', number))\<close> raises on \<^verbatim>\<open>{a: {b: 'x'}}\<close> a failure whose
  innermost failure says \<^verbatim>\<open>Expected to be a number but got [x].\<close>; the object decoder
  reports the plain message of the link in between.
\<close>

theorem object_innermost_counterexample:
  "run (required ''a'' (required ''b'' number)) (JObj [(''a'', JObj [(''b'', JStr ''x'')])]) =
     Inl (DecodeError
       ''Expected the value at [a] to be a number at [b]. Expected the value at [b] to be a number. Expected to be a number but got [x].''
       (Some (DecodeError
         ''Expected the value at [b] to be a number. Expected to be a number but got [x].''
         (Some (DecodeError ''Expected to be a number but got [x].'' None)))))
   \<and> deepest_plain_message
       (DecodeError
         ''Expected the value at [a] to be a number at [b]. Expected the value at [b] to be a number. Expected to be a number but got [x].''
         (Some (DecodeError
           ''Expected the value at [b] to be a number. Expected to be a number but got [x].''
           (Some (DecodeError ''Expected to be a number but got [x].'' None)))))
       = Some ''Expected to be a number but got [x].''
   \<and> run (object [(''a'', required ''a'' (required ''b'' number))])
         (JObj [(''a'', JObj [(''b'', JStr ''x'')])]) =
       Inl (DecodeError
         ''Expected the value to be a number at [b] at [a]. Expected the value at [b] to be a number. Expected to be a number but got [x].''
         None)
   \<and> run (object [(''a'', required ''a'' (required ''b'' number))])
         (JObj [(''a'', JObj [(''b'', JStr ''x'')])]) \<noteq>
       Inl (DecodeError
         ''Expected the value to be a number at [b] at [a]. Expected to be a number but got [x].''
         None)"
  by (simp add: object_def handler_inner_error_def deepest_plain_message_def required_def
      number_def lookup_defs text_defs)

subsection \<open>C2: a decoder returns a value of its type or raises a \<^verbatim>\<open>DecodeError\<close>\<close>

text \<open>
  C2, as the source has it. Let \<open>d\<close> be a decoder built by the combinators of the library,
  with \<open>T\<close> the values of its declared output type, where every selector of \<^verbatim>\<open>dependent\<close>
  gives, for each pivot of the first decoder's type, a decoder of the declared type or
  throws a \<^verbatim>\<open>DecodeError\<close>, and every \<^verbatim>\<open>coerce\<close> of \<^verbatim>\<open>enumeration\<close> gives, for each option,
  a value of the declared type or throws a \<^verbatim>\<open>DecodeError\<close>. Let \<open>v\<close> be an input in \<open>A\<close>: an
  input on which every function wrapped by \<^verbatim>\<open>custom\<close> is given a value on which it returns
  a value of its declared type or throws a \<^verbatim>\<open>DecodeError\<close>, and on which no \<^verbatim>\<open>enumeration\<close>
  is given an object that a template literal cannot print. Then \<open>d\<close> on \<open>v\<close> returns a
  value of \<open>T\<close> or raises one \<^verbatim>\<open>DecodeError\<close>; it returns undefined only where the declared
  type has undefined, and it raises no failure of another kind.
\<close>

theorem lib_decoder_returns_typed_or_raises_DecodeError:
  assumes "lib_decoder d A T" and "v \<in> A"
  shows "((\<exists>r \<in> T. run d v = Inr r) \<or> (\<exists>m i. run d v = Inl (DecodeError m i)))
         \<and> (JUndefined \<notin> T \<longrightarrow> run d v \<noteq> Inr JUndefined)
         \<and> (\<forall>m. run d v \<noteq> Inl (OtherError m))"
  using lib_decoder_sound [OF assms] by (auto simp: returns_or_raises_def)

text \<open>
  A nullable array of strings on an array that holds a number, and a required field
  that is one of two options on an object whose field holds a third string.
\<close>

theorem lib_decoder_returns_typed_or_raises_DecodeError_witness:
  "(((\<exists>r \<in> insert JNull {JArr ys | ys. set ys \<subseteq> {r. isString r}}.
        run (nullable (array str)) (JArr [JStr ''a'', JNum (Fin 1)]) = Inr r)
     \<or> (\<exists>m i. run (nullable (array str)) (JArr [JStr ''a'', JNum (Fin 1)])
               = Inl (DecodeError m i)))
    \<and> run (nullable (array str)) (JArr [JStr ''a'', JNum (Fin 1)]) \<noteq> Inr JUndefined)
   \<and> (((\<exists>r \<in> {r. isString r}.
          run (required ''kind'' (enumeration (\<lambda>v. Inl (OtherError ''TypeError'')) Inr [''a'', ''b'']))
            (JObj [(''kind'', JStr ''c'')]) = Inr r)
       \<or> (\<exists>m i. run (required ''kind''
                      (enumeration (\<lambda>v. Inl (OtherError ''TypeError'')) Inr [''a'', ''b'']))
                   (JObj [(''kind'', JStr ''c'')]) = Inl (DecodeError m i)))
      \<and> run (required ''kind'' (enumeration (\<lambda>v. Inl (OtherError ''TypeError'')) Inr [''a'', ''b'']))
            (JObj [(''kind'', JStr ''c'')]) \<noteq> Inr JUndefined)
   \<and> ((\<exists>r \<in> {JObj r | r. set (Object_keys r) = {''name'', ''id''}
                        \<and> (\<forall>k x. map_of r k = Some x \<longrightarrow>
                               x \<in> (if k = ''name'' then {r. isString r} else {r. isNumber r}))}.
          run (object [(''name'', required ''name'' str), (''id'', required ''id'' number)])
            (JObj [(''name'', JStr ''tester''), (''id'', JNum (Fin 42))]) = Inr r)
       \<or> (\<exists>m i. run (object [(''name'', required ''name'' str), (''id'', required ''id'' number)])
                   (JObj [(''name'', JStr ''tester''), (''id'', JNum (Fin 42))])
                 = Inl (DecodeError m i)))"
proof -
  let ?props = "[(''name'', required ''name'' str), (''id'', required ''id'' number)]"
  let ?A = "\<lambda>k. {v. has v k \<longrightarrow> read_prop v k \<in> (UNIV :: jsval set)}"
  let ?T = "\<lambda>k. if k = ''name'' then {r. isString r} else {r. isNumber r}"
  have "\<forall>k d. map_of ?props k = Some d \<longrightarrow> lib_decoder d (?A k) (?T k)"
    using lib_required [OF lib_str, of "''name''"] lib_required [OF lib_number, of "''id''"]
    by simp
  then have d3: "lib_decoder (object ?props)
      {v. \<forall>k \<in> set (Object_keys ?props). v \<in> ?A k}
      {JObj r | r. set (Object_keys r) = set (Object_keys ?props)
                   \<and> (\<forall>k x. map_of r k = Some x \<longrightarrow> x \<in> ?T k)}"
    by (rule lib_object)
  have v3: "JObj [(''name'', JStr ''tester''), (''id'', JNum (Fin 42))]
      \<in> {v. \<forall>k \<in> set (Object_keys ?props). v \<in> ?A k}"
    by simp
  have k3: "set (Object_keys ?props) = {''name'', ''id''}"
    by (simp add: Object_keys_def)
  let ?strings = "{r. isString r}"
  let ?e = "enumeration (\<lambda>v. Inl (OtherError ''TypeError'')) Inr [''a'', ''b'']"
  let ?printable = "{v. isObject v \<longrightarrow> (\<exists>t. (Inl (OtherError ''TypeError'') :: thrown + string) = Inr t)}"
  have "lib_decoder (array str) {v. set (elements v) \<subseteq> UNIV} {JArr ys | ys. set ys \<subseteq> ?strings}"
    by (rule lib_array) (rule lib_str)
  then have d1: "lib_decoder (nullable (array str))
      (insert JNull {v. set (elements v) \<subseteq> UNIV})
      (insert JNull {JArr ys | ys. set ys \<subseteq> ?strings})"
    by (rule lib_nullable)
  have v1: "JArr [JStr ''a'', JNum (Fin 1)] \<in> insert JNull {v. set (elements v) \<subseteq> UNIV}"
    by simp
  have u1: "JUndefined \<notin> insert JNull {JArr ys | ys. set ys \<subseteq> ?strings}"
    by simp
  have "lib_decoder ?e ?printable ?strings"
    by (rule lib_enumeration) simp
  then have d2: "lib_decoder (required ''kind'' ?e)
      {v. has v ''kind'' \<longrightarrow> read_prop v ''kind'' \<in> ?printable} ?strings"
    by (rule lib_required)
  have v2: "JObj [(''kind'', JStr ''c'')]
      \<in> {v. has v ''kind'' \<longrightarrow> read_prop v ''kind'' \<in> ?printable}"
    by (simp add: read_prop_def own_prop_def)
  have u2: "JUndefined \<notin> ?strings"
    by simp
  show ?thesis
    using lib_decoder_returns_typed_or_raises_DecodeError [OF d1 v1]
      lib_decoder_returns_typed_or_raises_DecodeError [OF d2 v2]
      lib_decoder_returns_typed_or_raises_DecodeError [OF d3 v3] u1 u2
    unfolding k3 by blast
qed

text \<open>
  C2 as stated fails for \<^verbatim>\<open>custom\<close>, which has no handler: when the wrapped function
  throws a \<^verbatim>\<open>TypeError\<close> the decoder throws it, and when it returns undefined the decoder
  returns undefined. It fails for \<^verbatim>\<open>enumeration\<close> on an object that a template literal
  cannot print, such as \<^verbatim>\<open>{toString: 1}\<close>: building the message throws the \<^verbatim>\<open>TypeError\<close>
  of the conversion. And it fails when the \<^verbatim>\<open>coerce\<close> of \<^verbatim>\<open>enumeration\<close> or the selector
  of \<^verbatim>\<open>dependent\<close> throws a \<^verbatim>\<open>TypeError\<close>, which nothing catches either.
\<close>

theorem custom_not_DecodeError_counterexample:
  "run (custom (\<lambda>obj. Inl (OtherError ''TypeError'')) ''be anything'') JNull
     = Inl (OtherError ''TypeError'')
   \<and> run (custom (\<lambda>obj. Inr JUndefined) ''be anything'') JNull = Inr JUndefined
   \<and> run (enumeration (\<lambda>obj. Inl (OtherError ''TypeError'')) Inr [''a'', ''b''])
         (JObj [(''toString'', JNum (Fin 1))])
       = Inl (OtherError ''TypeError'')
   \<and> run (enumeration (\<lambda>obj. Inr ''[object Object]'') (\<lambda>val. Inl (OtherError ''TypeError''))
              [''a'', ''b''])
         (JStr ''a'')
       = Inl (OtherError ''TypeError'')
   \<and> map_sum id (\<lambda>dd. run dd (JStr ''x''))
         (dependent str
            (\<lambda>pivot. if pivot = JNull then Inr str else Inl (OtherError ''TypeError'')))
       = Inr (Inl (OtherError ''TypeError''))"
  by (simp add: custom_def enumeration_def dependent_def str_def Let_def)

subsection \<open>C3: \<^verbatim>\<open>required\<close>\<close>

text \<open>
  C3, as the source has it. When the input has no own property \<open>p\<close> and \<open>p\<close> is a single
  key (it has no dot and no bracketed part, so that lodash does not read it as a path),
  \<^verbatim>\<open>required(p, d)\<close> raises a \<^verbatim>\<open>DecodeError\<close> without inner error that says
  \<^verbatim>\<open>Expected the value at [<p>] to <d.expectation> but there was none.\<close> When the input has
  the own property \<open>p\<close>, the decoder \<open>d\<close> is called on its value: its result is returned,
  and its \<^verbatim>\<open>DecodeError\<close> is wrapped into
  \<^verbatim>\<open>Expected the value at [<p>] to <d.expectation>. <inner.plain_message>\<close> with the
  failure of \<open>d\<close> as inner error.
\<close>

theorem required_own_property:
  "(own_prop v p = None \<and> \<not> reIsDeepProp p \<longrightarrow>
      run (required p d) v =
        Inl (DecodeError
          (''Expected the value at ['' @ p @ ''] to '' @ template_nullable (expectation d)
             @ '' but there was none.'') None))
   \<and> (\<forall>x. own_prop v p = Some x \<longrightarrow>
        (\<forall>r. run d x = Inr r \<longrightarrow> run (required p d) v = Inr r)
        \<and> (\<forall>m i. run d x = Inl (DecodeError m i) \<longrightarrow>
              run (required p d) v =
                Inl (DecodeError
                  (''Expected the value at ['' @ p @ ''] to '' @ template_nullable (expectation d)
                     @ ''. '' @ m)
                  (Some (DecodeError m i)))))"
  by (auto simp: required_def has_single_key has_own_prop read_prop_own plain_message_or_empty_def)

theorem required_own_property_witness:
  "run (required ''id'' number) (JObj [(''name'', JStr ''tester'')]) =
     Inl (DecodeError ''Expected the value at [id] to be a number but there was none.'' None)
   \<and> run (required ''name'' str) (JObj [(''name'', JStr ''tester'')]) = Inr (JStr ''tester'')
   \<and> run (required ''name'' number) (JObj [(''name'', JStr ''tester'')]) =
       Inl (DecodeError
         ''Expected the value at [name] to be a number. Expected to be a number but got [tester].''
         (Some (DecodeError ''Expected to be a number but got [tester].'' None)))
   \<and> run (required ''length'' number) (JFunction 2 ''f'' []) = Inr (JNum (Fin 2))
   \<and> run (required ''length'' number) (JArr [JNull, JNull, JNull]) = Inr (JNum (Fin 3))"
proof -
  let ?v = "JObj [(''name'', JStr ''tester'')]"
  have len: "own_prop (JFunction 2 ''f'' []) ''length'' = Some (JNum (Fin 2))"
    by (simp add: own_prop_def)
  have len': "own_prop (JArr [JNull, JNull, JNull]) ''length'' = Some (JNum (Fin 3))"
    by (simp add: own_prop_def show_nat.simps upt_rec)
  have num: "run number (JNum (Fin 2)) = Inr (JNum (Fin 2))"
      "run number (JNum (Fin 3)) = Inr (JNum (Fin 3))"
    by (simp_all add: number_def Let_def)
  have absent: "own_prop ?v ''id'' = None \<and> \<not> reIsDeepProp ''id''"
    by (simp add: own_prop_def)
  have present: "own_prop ?v ''name'' = Some (JStr ''tester'')"
    by (simp add: own_prop_def)
  have ok: "run str (JStr ''tester'') = Inr (JStr ''tester'')"
    by (simp add: str_def Let_def)
  have bad: "run number (JStr ''tester'') =
      Inl (DecodeError ''Expected to be a number but got [tester].'' None)"
    by (simp add: number_def Let_def)
  have e: "expectation number = Some ''be a number''"
    by (simp add: number_def Let_def)
  show ?thesis
    using required_own_property [of ?v "''id''" number]
      required_own_property [of ?v "''name''" str]
      required_own_property [of ?v "''name''" number]
      required_own_property [of "JFunction 2 ''f'' []" "''length''" number]
      required_own_property [of "JArr [JNull, JNull, JNull]" "''length''" number]
      absent present ok bad e len len' num
    by (simp add: template_nullable_def)
qed

text \<open>
  C3 as stated fails for a path that lodash resolves through nested properties:
  \<^verbatim>\<open>{a: {b: 1}}\<close> has no property named \<^verbatim>\<open>a.b\<close>, yet \<^verbatim>\<open>_.has\<close> finds the path, so the decoder
  is called on \<^verbatim>\<open>obj['a.b']\<close>, which is undefined.
\<close>

theorem required_deep_path_counterexample:
  "own_prop (JObj [(''a'', JObj [(''b'', JNum (Fin 1))])]) ''a.b'' = None
   \<and> run (required ''a.b'' number) (JObj [(''a'', JObj [(''b'', JNum (Fin 1))])]) =
       Inl (DecodeError
         ''Expected the value at [a.b] to be a number. Expected to be a number but got undefined.''
         (Some (DecodeError ''Expected to be a number but got undefined.'' None)))
   \<and> run (required ''a.b'' number) (JObj [(''a'', JObj [(''b'', JNum (Fin 1))])]) \<noteq>
       Inl (DecodeError ''Expected the value at [a.b] to be a number but there was none.'' None)"
  by (simp add: required_def number_def lookup_defs text_defs)

subsection \<open>C4: the failure of \<^verbatim>\<open>dictionary\<close>\<close>

text \<open>
  C4. The input is a plain object; the values at the keys before \<open>k\<close>, in the order of
  \<^verbatim>\<open>Object.keys\<close>, decode, and the decoder raises a \<^verbatim>\<open>DecodeError\<close> with plain message \<open>m\<close>
  on the value at \<open>k\<close>. Then \<^verbatim>\<open>dictionary(d)\<close> raises a \<^verbatim>\<open>DecodeError\<close> whose plain message is
  \<^verbatim>\<open>Expected the value with the key [<k>] to <d.expectation>. <m>\<close> and whose inner error
  is null: the failure of \<open>d\<close> is not handed on.
\<close>

theorem dictionary_failure_without_inner_error:
  assumes "Object_keys ps = earlier @ k # later"
    and "\<forall>n \<in> set earlier. \<exists>r. run d (read_prop (JObj ps) n) = Inr r"
    and "run d (read_prop (JObj ps) k) = Inl (DecodeError m i)"
  shows "run (dictionary d) (JObj ps) =
           Inl (DecodeError
             (''Expected the value with the key ['' @ k @ ''] to ''
                @ template_nullable (expectation d) @ ''. '' @ m) None)"
  using dictionary_loop_first_failure [OF assms(2,3), of later "[]"] assms(1)
  by (simp add: dictionary_def Let_def plain_message_or_empty_def)

theorem dictionary_failure_without_inner_error_witness:
  "run (dictionary number) (JObj [(''a'', JNum (Fin 1)), (''b'', JStr ''x''), (''c'', JNull)]) =
     Inl (DecodeError
       ''Expected the value with the key [b] to be a number. Expected to be a number but got [x].''
       None)"
proof -
  let ?ps = "[(''a'', JNum (Fin 1)), (''b'', JStr ''x''), (''c'', JNull)]"
  have keys: "Object_keys ?ps = [''a''] @ ''b'' # [''c'']"
    by (simp add: Object_keys_def)
  have before: "\<forall>n \<in> set [''a'']. \<exists>r. run number (read_prop (JObj ?ps) n) = Inr r"
    by (simp add: number_def read_prop_def own_prop_def Let_def)
  have at: "run number (read_prop (JObj ?ps) ''b'') =
      Inl (DecodeError ''Expected to be a number but got [x].'' None)"
    by (simp add: number_def read_prop_def own_prop_def Let_def)
  have e: "expectation number = Some ''be a number''"
    by (simp add: number_def Let_def)
  show ?thesis
    using dictionary_failure_without_inner_error [OF keys before at] e
    by (simp add: template_nullable_def)
qed

subsection \<open>C5: \<^verbatim>\<open>nullable\<close>\<close>

text \<open>
  C5. \<^verbatim>\<open>nullable(d)\<close> returns null on null, whatever \<open>d\<close> is. On any other value \<open>v\<close> it
  returns what \<open>d\<close> returns, and when \<open>d\<close> raises a \<^verbatim>\<open>DecodeError\<close> with plain message \<open>m\<close>
  it raises a \<^verbatim>\<open>DecodeError\<close> that says
  \<^verbatim>\<open>Expected the value to be null or <d.expectation> but got <actualValueDescription(v)>. <m>\<close>
  and has the failure of \<open>d\<close> as inner error.
\<close>

theorem nullable_null_or_decoder:
  "run (nullable d) JNull = Inr JNull
   \<and> (v \<noteq> JNull \<longrightarrow>
        (\<forall>r. run d v = Inr r \<longrightarrow> run (nullable d) v = Inr r)
        \<and> (\<forall>m i. run d v = Inl (DecodeError m i) \<longrightarrow>
              run (nullable d) v =
                Inl (DecodeError
                  (''Expected the value to be null or '' @ template_nullable (expectation d)
                     @ '' but got '' @ actualValueDescription v @ ''. '' @ m)
                  (Some (DecodeError m i)))))"
  by (cases v) (simp_all add: nullable_def Let_def plain_message_or_empty_def)

theorem nullable_null_or_decoder_witness:
  "run (nullable str) JNull = Inr JNull
   \<and> run (nullable str) (JStr ''x'') = Inr (JStr ''x'')
   \<and> run (nullable str) (JNum (Fin 5)) =
       Inl (DecodeError
         ''Expected the value to be null or be a string but got [5]. Expected to be a string but got [5].''
         (Some (DecodeError ''Expected to be a string but got [5].'' None)))"
proof -
  have s: "run str (JStr ''x'') = Inr (JStr ''x'')"
    by (simp add: str_def Let_def)
  have f: "run str (JNum (Fin 5)) = Inl (DecodeError ''Expected to be a string but got [5].'' None)"
    by (simp add: str_def text_defs)
  have e: "expectation str = Some ''be a string''"
    by (simp add: str_def Let_def)
  show ?thesis
    using nullable_null_or_decoder [of str "JStr ''x''"]
      nullable_null_or_decoder [of str "JNum (Fin 5)"] s f e
    by (simp add: text_defs)
qed

subsection \<open>C6: \<^verbatim>\<open>optional\<close>\<close>

text \<open>
  C6. When the input has no own property \<open>p\<close>, or has it with the value undefined,
  \<^verbatim>\<open>optional(p, d)\<close> returns null, whatever \<open>d\<close> is; otherwise it returns what
  \<^verbatim>\<open>nullable(d)\<close> gives on the value of the property.
\<close>

theorem optional_absent_or_nullable:
  "run (optional p d) v =
     (if own_prop v p = None \<or> own_prop v p = Some JUndefined then Inr JNull
      else run (nullable d) (read_prop v p))"
proof (cases "own_prop v p")
  case None
  then show ?thesis
    by (simp add: optional_def Let_def read_prop_absent)
next
  case (Some x)
  then have "has v p" by (rule has_own_prop)
  with Some show ?thesis
    by (cases x) (simp_all add: optional_def Let_def read_prop_own)
qed

theorem optional_absent_or_nullable_witness:
  "run (optional ''x'' str) (JObj []) = Inr JNull
   \<and> run (optional ''x'' str) (JObj [(''x'', JUndefined)]) = Inr JNull
   \<and> run (optional ''x'' str) (JObj [(''x'', JNull)]) = Inr JNull
   \<and> run (optional ''x'' str) (JObj [(''x'', JStr ''s'')]) = Inr (JStr ''s'')
   \<and> run (optional ''x.y'' str) (JObj [(''x'', JObj [(''y'', JStr ''s'')])]) = Inr JNull
   \<and> run (optional ''name'' str) (JFunction 0 [] []) = Inr (JStr [])
   \<and> run (optional ''prototype'' str) (JFunction 0 [] []) = Inr JNull"
  using optional_absent_or_nullable [of "''x''" str "JObj []"]
    optional_absent_or_nullable [of "''name''" str "JFunction 0 [] []"]
    optional_absent_or_nullable [of "''prototype''" str "JFunction 0 [] []"]
    optional_absent_or_nullable [of "''x''" str "JObj [(''x'', JUndefined)]"]
    optional_absent_or_nullable [of "''x''" str "JObj [(''x'', JNull)]"]
    optional_absent_or_nullable [of "''x''" str "JObj [(''x'', JStr ''s'')]"]
    optional_absent_or_nullable [of "''x.y''" str "JObj [(''x'', JObj [(''y'', JStr ''s'')])]"]
  by (simp add: own_prop_def read_prop_def nullable_def str_def Let_def)

subsection \<open>C7: \<^verbatim>\<open>withDefault\<close>\<close>

text \<open>
  C7, as the source has it. \<^verbatim>\<open>withDefault(dv, d)\<close> calls \<open>d\<close> on the input; a failure of \<open>d\<close>
  leaves \<^verbatim>\<open>withDefault\<close> unchanged; a result of \<open>d\<close> is replaced by \<open>dv\<close> exactly when it is
  null, undefined or NaN, which are the three values \<^verbatim>\<open>_.defaultTo\<close> replaces. The
  expectation is that of \<open>d\<close>.
\<close>

theorem withDefault_substitutes_nil_or_NaN:
  "run (withDefault dv d) v =
     (case run d v of
        Inl e \<Rightarrow> Inl e
      | Inr r \<Rightarrow> Inr (if isNil r \<or> r = JNum NaN then dv else r))
   \<and> expectation (withDefault dv d) = expectation d"
  by (simp add: withDefault_def defaultTo_eq split: sum.splits)

theorem withDefault_substitutes_nil_or_NaN_witness:
  "run (withDefault (JNum (Fin 0)) (optional ''n'' number)) (JObj []) = Inr (JNum (Fin 0))
   \<and> run (withDefault (JNum (Fin 0)) number) (JNum (Fin 3)) = Inr (JNum (Fin 3))
   \<and> run (withDefault (JNum (Fin 0)) number) (JStr ''3'') =
       Inl (DecodeError ''Expected to be a number but got [3].'' None)"
  using withDefault_substitutes_nil_or_NaN [of "JNum (Fin 0)" "optional ''n'' number" "JObj []"]
    withDefault_substitutes_nil_or_NaN [of "JNum (Fin 0)" number "JNum (Fin 3)"]
    withDefault_substitutes_nil_or_NaN [of "JNum (Fin 0)" number "JStr ''3''"]
  by (simp add: optional_def number_def lookup_defs Let_def)

text \<open>
  C7 as stated fails on NaN: \<^verbatim>\<open>number\<close> returns NaN, which is neither null nor undefined,
  and \<^verbatim>\<open>withDefault\<close> replaces it by the default.
\<close>

theorem withDefault_NaN_counterexample:
  "run number (JNum NaN) = Inr (JNum NaN)
   \<and> \<not> isNil (JNum NaN)
   \<and> run (withDefault (JNum (Fin 0)) number) (JNum NaN) = Inr (JNum (Fin 0))
   \<and> run (withDefault (JNum (Fin 0)) number) (JNum NaN) \<noteq> run number (JNum NaN)"
  by (simp add: withDefault_def number_def Let_def)

subsection \<open>C8: \<^verbatim>\<open>dependent\<close>\<close>

text \<open>
  C8. For a decoder \<open>dd\<close> that \<^verbatim>\<open>dependent(d, f)\<close> built: a failure of \<open>d\<close> on the input is
  the failure of \<open>dd\<close>, so the pivot comes first; and when \<open>d\<close> returns the pivot and \<open>f\<close>
  selects a second decoder for it, \<open>dd\<close> gives what the second decoder gives on the same
  input \<open>v\<close>.
\<close>

theorem dependent_second_decoder_on_same_input:
  assumes "dependent d f = Inr dd"
  shows "(\<forall>e. run d v = Inl e \<longrightarrow> run dd v = Inl e)
         \<and> (\<forall>pivot second. run d v = Inr pivot \<and> f pivot = Inr second
               \<longrightarrow> run dd v = run second v)"
  using assms by (auto simp: dependent_def split: sum.splits)

text \<open>
  A tagged union: the field \<^verbatim>\<open>kind\<close> selects how the field \<^verbatim>\<open>value\<close> of the same object is
  decoded. The second decoder would fail on the pivot, which is a string without
  the property \<^verbatim>\<open>value\<close>.
\<close>

theorem dependent_second_decoder_on_same_input_witness:
  "\<exists>dd. dependent (required ''kind'' str)
           (\<lambda>pivot. Inr (if pivot = JStr ''n'' then required ''value'' number
                           else required ''value'' str)) = Inr dd
     \<and> run dd (JObj [(''kind'', JStr ''n''), (''value'', JNum (Fin 5))]) = Inr (JNum (Fin 5))
     \<and> run dd (JObj [(''value'', JNum (Fin 5))]) =
         Inl (DecodeError ''Expected the value at [kind] to be a string but there was none.'' None)"
proof -
  let ?f = "\<lambda>pivot. Inr (if pivot = JStr ''n'' then required ''value'' number
                          else required ''value'' str) :: thrown + decoder"
  let ?v = "JObj [(''kind'', JStr ''n''), (''value'', JNum (Fin 5))]"
  let ?w = "JObj [(''value'', JNum (Fin 5))]"
  obtain dd where dd: "dependent (required ''kind'' str) ?f = Inr dd"
    by (simp add: dependent_def)
  have pivot: "run (required ''kind'' str) ?v = Inr (JStr ''n'')"
    by (simp add: required_def str_def lookup_defs Let_def)
  have second: "?f (JStr ''n'') = Inr (required ''value'' number)"
    by simp
  have result: "run (required ''value'' number) ?v = Inr (JNum (Fin 5))"
    by (simp add: required_def number_def lookup_defs Let_def)
  have missing: "run (required ''kind'' str) ?w =
      Inl (DecodeError ''Expected the value at [kind] to be a string but there was none.'' None)"
    by (simp add: required_def str_def lookup_defs text_defs)
  have "run dd ?v = Inr (JNum (Fin 5))"
    using dependent_second_decoder_on_same_input [OF dd, of ?v] pivot second result
    by simp
  moreover have "run dd ?w =
      Inl (DecodeError ''Expected the value at [kind] to be a string but there was none.'' None)"
    using dependent_second_decoder_on_same_input [OF dd, of ?w] missing
    by simp
  ultimately show ?thesis
    using dd by blast
qed

subsection \<open>C9: the primitive decoders return their input\<close>

text \<open>
  C9. \<^verbatim>\<open>str\<close> returns every string, \<^verbatim>\<open>number\<close> every number, \<^verbatim>\<open>bool\<close> every boolean and
  \<^verbatim>\<open>anyObject\<close> every object (plain object, array, date, function) as it is; a string of
  digits stays a string for \<^verbatim>\<open>str\<close> and is refused by \<^verbatim>\<open>number\<close>.
\<close>

theorem primitives_pass_through:
  "run str (JStr s) = Inr (JStr s)
   \<and> run number (JNum n) = Inr (JNum n)
   \<and> run bool (JBool b) = Inr (JBool b)
   \<and> run anyObject (JObj ps) = Inr (JObj ps)
   \<and> run anyObject (JArr xs) = Inr (JArr xs)
   \<and> run anyObject (JDate t) = Inr (JDate t)
   \<and> run anyObject (JFunction arity nm ps) = Inr (JFunction arity nm ps)
   \<and> run number (JStr s) =
       Inl (DecodeError (''Expected to be a number but got ['' @ s @ ''].'') None)"
  by (simp add: str_def number_def bool_def anyObject_def Let_def)

theorem primitives_pass_through_witness:
  "run str (JStr ''42'') = Inr (JStr ''42'')
   \<and> run number (JNum (Fin 42)) = Inr (JNum (Fin 42))
   \<and> run number (JStr ''42'') = Inl (DecodeError ''Expected to be a number but got [42].'' None)"
  using primitives_pass_through [where s = "''42''" and n = "Fin 42"] by simp

subsection \<open>C10: \<^verbatim>\<open>anyObject\<close> accepts arrays and functions\<close>

text \<open>
  C10. \<^verbatim>\<open>anyObject\<close>, whose expectation is \<^verbatim>\<open>be an object\<close>, returns every array and every
  function as it is, and raises exactly on null, undefined, strings, numbers and
  booleans.
\<close>

theorem anyObject_accepts_arrays_and_functions:
  "run anyObject (JArr xs) = Inr (JArr xs)
   \<and> run anyObject (JFunction arity nm ps) = Inr (JFunction arity nm ps)
   \<and> expectation anyObject = Some ''be an object''
   \<and> ((\<exists>e. run anyObject v = Inl e)
        \<longleftrightarrow> (isNull v \<or> isUndefined v \<or> isString v \<or> isNumber v \<or> isBoolean v))"
  by (cases v) (simp_all add: anyObject_def Let_def)

theorem anyObject_accepts_arrays_and_functions_witness:
  "run anyObject (JArr [JNum (Fin 1), JStr ''two'']) = Inr (JArr [JNum (Fin 1), JStr ''two''])
   \<and> (\<exists>e. run anyObject JNull = Inl e)
   \<and> \<not> (\<exists>e. run anyObject (JArr []) = Inl e)"
  using anyObject_accepts_arrays_and_functions [where xs = "[JNum (Fin 1), JStr ''two'']" and v = JNull]
    anyObject_accepts_arrays_and_functions [where v = "JArr []"]
  by simp

end
